theory Spec2Isabelle
  imports Main "HOL-Library.AList" "HOL-Library.Sublist"
begin

section \<open>Values, rows and data-access calls\<close>

text \<open>
  The repository (\<^verbatim>\<open>src/platform/metadata/repository.py\<close>) maps object methods to calls
  on a data-access object. Python values that travel through those calls are dynamically
  typed; \<open>PNone\<close> is Python's \<^verbatim>\<open>None\<close>, \<open>PTime\<close> a \<^verbatim>\<open>datetime\<close> (as a timestamp).
\<close>

datatype pyval =
    PNone
  | PBool bool
  | PInt int
  | PStr string
  | PTime int
  | PList "pyval list"

text \<open>One row of tabular data: column names with their values, in column order.\<close>

type_synonym row = "(string \<times> pyval) list"

text \<open>
  The calls that the repository makes on its data-access object, with the keyword arguments
  of each call site. An argument that some call site leaves out is an option, \<open>None\<close>
  meaning that the keyword is not passed:
  \<^item> \<open>Create table columns values schema\<close>
  \<^item> \<open>Read table where_key where_value schema\<close>
  \<^item> \<open>Update table column value where_key where_value schema\<close>
  \<^item> \<open>Delete table where_key where_value schema\<close>
\<close>

datatype dao_call =
    Connect
  | Begin
  | Commit
  | Close
  | Create string "string list" "pyval list" "string option"
  | Read string "string option" "pyval option" "string option"
  | Update string string pyval string pyval "string option"
  | Delete string string pyval "string option"

text \<open>A failure raised by the data-access object carries the call that raised it.\<close>

datatype error = StorageError dao_call

text \<open>
  The class \<^verbatim>\<open>PGDao\<close> is imported from \<^verbatim>\<open>..database.access\<close> and is not part of the
  sources at hand, so the methods below take the data-access object as a parameter: a
  function from a call and the object's state to the call's outcome (a raised failure or
  the returned rows) and the state after the call. The state survives a raised failure, as
  that of a Python object does.
\<close>

type_synonym 's dao = "dao_call \<Rightarrow> 's \<Rightarrow> (error + row list) \<times> 's"

text \<open>Statement sequencing: a raised failure skips everything that follows.\<close>

definition andthen ::
  "('s \<Rightarrow> (error + 'a) \<times> 's) \<Rightarrow> ('s \<Rightarrow> (error + 'b) \<times> 's) \<Rightarrow> 's \<Rightarrow> (error + 'b) \<times> 's" where
  "andthen m k s = (case m s of (Inl e, s') \<Rightarrow> (Inl e, s') | (Inr _, s') \<Rightarrow> k s')"

definition return_None :: "'s \<Rightarrow> (error + unit) \<times> 's" where
  "return_None s = (Inr (), s)"

section \<open>Artifacts\<close>

text \<open>
  Keyword arguments given to a constructor, and the collaborators built from them:
  \<open>PGDao []\<close> is \<^verbatim>\<open>PGDao()\<close>.
\<close>

datatype 'c kwarg = Credentials 'c | Autocommit bool

datatype 'c PGConnectionFactory = PGConnectionFactory "'c kwarg list"

datatype 'c PGDao = PGDao "'c kwarg list"

record 'c Artifact =
  self_connection_factory :: "'c PGConnectionFactory"
  self_dao :: "'c PGDao"
  self_schema :: string

text \<open>\<^verbatim>\<open>Artifact.__init__(self, *args, **kwargs)\<close>\<close>

definition Artifact_init :: "'c kwarg list \<Rightarrow> 'c Artifact" where
  "Artifact_init kwargs =
     \<lparr>self_connection_factory = PGConnectionFactory [], self_dao = PGDao [],
      self_schema = ''public''\<rparr>"

record 'c DataSource = "'c Artifact" +
  self_table :: string

text \<open>\<^verbatim>\<open>DataSource.__init__(self, credentials, autocommit=False)\<close>\<close>

definition DataSource_init :: "'c \<Rightarrow> bool \<Rightarrow> 'c DataSource" where
  "DataSource_init credentials autocommit =
     Artifact.extend (Artifact_init [Credentials credentials, Autocommit autocommit])
       (DataSource.fields ''datasource'')"

text \<open>The loop of \<^verbatim>\<open>DataSource.create\<close> over \<^verbatim>\<open>kwargs.items()\<close>.\<close>

fun append_items ::
  "(string \<times> pyval) list \<Rightarrow> string list \<times> pyval list \<Rightarrow> string list \<times> pyval list" where
  "append_items [] (columns, values) = (columns, values)"
| "append_items ((k, v) # kwargs) (columns, values) =
     append_items kwargs (columns @ [k], values @ [v])"

text \<open>The two lists that \<^verbatim>\<open>DataSource.create\<close> hands to the data-access object.\<close>

definition DataSource_create_lists ::
  "pyval \<Rightarrow> pyval \<Rightarrow> pyval \<Rightarrow> pyval \<Rightarrow> pyval \<Rightarrow> pyval \<Rightarrow> pyval \<Rightarrow> pyval \<Rightarrow> pyval \<Rightarrow>
   pyval \<Rightarrow> pyval \<Rightarrow> pyval \<Rightarrow> pyval \<Rightarrow> pyval \<Rightarrow> pyval \<Rightarrow> pyval \<Rightarrow> pyval \<Rightarrow>
   (string \<times> pyval) list \<Rightarrow> string list \<times> pyval list" where
  "DataSource_create_lists name source_type version webpage link link_type frequency
     lifecycle creator has_changed source_updated created created_by title description
     coverage maintainer kwargs =
     (let columns = [''name'', ''source_type'', ''version'', ''webpage'',
                     ''link'', ''link_type'', ''frequency'', ''lifecycle'', ''creator'',
                     ''has_changed'', ''source_updated'', ''created'', ''created_by'',
                     ''title'', ''description'', ''coverage'', ''maintainer''];
          values = [name, source_type, version, webpage,
                    link, link_type, frequency, lifecycle, creator,
                    has_changed, source_updated, created, created_by,
                    title, description, coverage, maintainer]
      in append_items kwargs (columns, values))"

definition DataSource_create ::
  "'s dao \<Rightarrow> ('c, 'z) DataSource_scheme \<Rightarrow>
   pyval \<Rightarrow> pyval \<Rightarrow> pyval \<Rightarrow> pyval \<Rightarrow> pyval \<Rightarrow> pyval \<Rightarrow> pyval \<Rightarrow> pyval \<Rightarrow> pyval \<Rightarrow>
   pyval \<Rightarrow> pyval \<Rightarrow> pyval \<Rightarrow> pyval \<Rightarrow> pyval \<Rightarrow> pyval \<Rightarrow> pyval \<Rightarrow> pyval \<Rightarrow>
   (string \<times> pyval) list \<Rightarrow> 's \<Rightarrow> (error + unit) \<times> 's" where
  "DataSource_create d self name source_type version webpage link link_type frequency
     lifecycle creator has_changed source_updated created created_by title description
     coverage maintainer kwargs =
     (case DataSource_create_lists name source_type version webpage link link_type
             frequency lifecycle creator has_changed source_updated created created_by
             title description coverage maintainer kwargs of
        (columns, values) \<Rightarrow>
          andthen (d (Create (DataSource.self_table self) columns values
                        (Some (Artifact.self_schema self))))
            return_None)"

definition DataSource_read ::
  "'s dao \<Rightarrow> ('c, 'z) DataSource_scheme \<Rightarrow> pyval \<Rightarrow> 's \<Rightarrow> (error + row list) \<times> 's" where
  "DataSource_read d self name =
     (if name \<noteq> PNone
      then d (Read (DataSource.self_table self) (Some ''name'') (Some name)
                (Some (Artifact.self_schema self)))
      else d (Read (DataSource.self_table self) None None
                (Some (Artifact.self_schema self))))"

definition DataSource_update ::
  "'s dao \<Rightarrow> ('c, 'z) DataSource_scheme \<Rightarrow>
   pyval \<Rightarrow> pyval \<Rightarrow> pyval \<Rightarrow> pyval \<Rightarrow> pyval \<Rightarrow> pyval \<Rightarrow> pyval \<Rightarrow>
   's \<Rightarrow> (error + unit) \<times> 's" where
  "DataSource_update d self name version uris has_changed source_updated updated updated_by =
     andthen (d Connect) (
     andthen (d Begin) (
     andthen (d (Update (DataSource.self_table self) ''uris'' uris
                   ''name'' name (Some (Artifact.self_schema self)))) (
     andthen (d (Update (DataSource.self_table self) ''has_changed'' has_changed
                   ''name'' name (Some (Artifact.self_schema self)))) (
     andthen (d (Update (DataSource.self_table self) ''source_updated'' source_updated
                   ''name'' name (Some (Artifact.self_schema self)))) (
     andthen (d (Update (DataSource.self_table self) ''updated'' updated
                   ''name'' name (Some (Artifact.self_schema self)))) (
     andthen (d (Update (DataSource.self_table self) ''updated_by'' updated_by
                   ''name'' name (Some (Artifact.self_schema self)))) (
     andthen (d Commit) (
     andthen (d Close)
       return_None))))))))"

definition DataSource_delete ::
  "'s dao \<Rightarrow> ('c, 'z) DataSource_scheme \<Rightarrow> pyval \<Rightarrow> 's \<Rightarrow> (error + unit) \<times> 's" where
  "DataSource_delete d self name =
     andthen (d (Delete (DataSource.self_table self) ''name'' name
                   (Some (Artifact.self_schema self))))
       return_None"

section \<open>Events\<close>

record 'c Event =
  self_credentials :: 'c
  self_dao :: "'c PGDao"
  self_schema :: string

text \<open>\<^verbatim>\<open>Event.__init__(self, credentials, autocommit=True, *args, **kwargs)\<close>\<close>

definition Event_init :: "'c \<Rightarrow> bool \<Rightarrow> 'c Event" where
  "Event_init credentials autocommit =
     \<lparr>self_credentials = credentials,
      self_dao = PGDao [Credentials credentials, Autocommit autocommit],
      self_schema = ''public''\<rparr>"

record 'c DataSourceEvent = "'c Event" +
  self_table :: string

text \<open>
  \<^verbatim>\<open>DataSourceEvent.__init__(self, credentials)\<close>: the base constructor receives the
  credentials only, so its \<^verbatim>\<open>autocommit\<close> takes the default \<^verbatim>\<open>True\<close>.
\<close>

definition DataSourceEvent_init :: "'c \<Rightarrow> 'c DataSourceEvent" where
  "DataSourceEvent_init credentials =
     Event.extend (Event_init credentials True) (DataSourceEvent.fields ''datasourceevent'')"

definition DataSourceEvent_create ::
  "'s dao \<Rightarrow> ('c, 'z) DataSourceEvent_scheme \<Rightarrow> (string \<times> pyval) list \<Rightarrow>
   's \<Rightarrow> (error + unit) \<times> 's" where
  "DataSourceEvent_create d self kwargs =
     (let columns = [k. k \<leftarrow> map fst kwargs];
          values = [v. v \<leftarrow> map snd kwargs]
      in andthen (d (Create (DataSourceEvent.self_table self) columns values
                       (Some (Event.self_schema self))))
           return_None)"

definition DataSourceEvent_read ::
  "'s dao \<Rightarrow> ('c, 'z) DataSourceEvent_scheme \<Rightarrow> pyval \<Rightarrow> 's \<Rightarrow> (error + row list) \<times> 's" where
  "DataSourceEvent_read d self name =
     (if name = PNone
      then d (Read (DataSourceEvent.self_table self) None None None)
      else d (Read (DataSourceEvent.self_table self) (Some ''name'') (Some name) None))"

definition DataSourceEvent_delete ::
  "'s dao \<Rightarrow> ('c, 'z) DataSourceEvent_scheme \<Rightarrow> pyval \<Rightarrow> 's \<Rightarrow> (error + unit) \<times> 's" where
  "DataSourceEvent_delete d self id' =
     andthen (d (Delete (DataSourceEvent.self_table self) ''id'' id' None))
       return_None"

section \<open>The data-access object\<close>

text \<open>
  \<open>traced d\<close> behaves as \<open>d\<close> and records every call it receives, in order, the call
  that raises included.
\<close>

definition traced :: "'s dao \<Rightarrow> ('s \<times> dao_call list) dao" where
  "traced d c = (\<lambda>(s, lg). case d c s of (r, s') \<Rightarrow> (r, (s', lg @ [c])))"

text \<open>
  \<open>rejecting rej d\<close> behaves as \<open>d\<close>, except that the storage rejects the calls that
  \<open>rej\<close> selects: such a call raises and has no effect.
\<close>

definition rejecting :: "(dao_call \<Rightarrow> bool) \<Rightarrow> 's dao \<Rightarrow> 's dao" where
  "rejecting rej d c s = (if rej c then (Inl (StorageError c), s) else d c s)"

text \<open>
  The state of the storage behind the data-access object: the rows of every table, by
  schema and table name, whether a connection is held, and whether a transaction is open.
\<close>

record pg =
  tables :: "string \<times> string \<Rightarrow> row list"
  connected :: bool
  in_transaction :: bool

text \<open>The equality predicate \<open>where_key = where_value\<close> on a row.\<close>

definition matches :: "string \<Rightarrow> pyval \<Rightarrow> row \<Rightarrow> bool" where
  "matches where_key where_value r = (map_of r where_key = Some where_value)"

text \<open>
  The table that a call addresses. What \<^verbatim>\<open>PGDao\<close> does when a call passes no schema is
  not known here: \<open>default_schema\<close> is a parameter.
\<close>

definition target :: "string \<Rightarrow> string option \<Rightarrow> string \<Rightarrow> string \<times> string" where
  "target default_schema schema tbl =
     ((case schema of None \<Rightarrow> default_schema | Some s \<Rightarrow> s), tbl)"

text \<open>
  Modelled from the spec: the class \<^verbatim>\<open>PGDao\<close> (\<^verbatim>\<open>src/platform/database/access.py\<close>) is
  missing from the sources. The specification describes it as follows: \<^verbatim>\<open>connect\<close>,
  \<^verbatim>\<open>begin\<close>, \<^verbatim>\<open>commit\<close>, \<^verbatim>\<open>close\<close> are the explicit transaction lifecycle; \<^verbatim>\<open>create\<close>
  inserts one row; \<^verbatim>\<open>read\<close> selects all columns, optionally filtered by one equality
  predicate (no matching row is an empty result, not an error); \<^verbatim>\<open>update\<close> updates one
  column on the rows matching one equality predicate; \<^verbatim>\<open>delete\<close> deletes the rows
  matching one equality predicate (none matching affects zero rows).
\<close>

fun spec_dao :: "string \<Rightarrow> pg dao" where
  "spec_dao dflt Connect s = (Inr [], s\<lparr>connected := True\<rparr>)"
| "spec_dao dflt Begin s = (Inr [], s\<lparr>in_transaction := True\<rparr>)"
| "spec_dao dflt Commit s = (Inr [], s\<lparr>in_transaction := False\<rparr>)"
| "spec_dao dflt Close s = (Inr [], s\<lparr>connected := False\<rparr>)"
| "spec_dao dflt (Create tbl columns values schema) s =
     (let t = target dflt schema tbl
      in (Inr [], s\<lparr>tables := (tables s)(t := tables s t @ [zip columns values])\<rparr>))"
| "spec_dao dflt (Read tbl where_key where_value schema) s =
     (let rows = tables s (target dflt schema tbl)
      in (Inr (case (where_key, where_value) of
                 (Some k, Some v) \<Rightarrow> filter (matches k v) rows
               | _ \<Rightarrow> rows), s))"
| "spec_dao dflt (Update tbl column value where_key where_value schema) s =
     (let t = target dflt schema tbl
      in (Inr [], s\<lparr>tables := (tables s)(t :=
            map (\<lambda>r. if matches where_key where_value r
                      then AList.update column value r else r) (tables s t))\<rparr>))"
| "spec_dao dflt (Delete tbl where_key where_value schema) s =
     (let t = target dflt schema tbl
      in (Inr [], s\<lparr>tables := (tables s)(t :=
            filter (\<lambda>r. \<not> matches where_key where_value r) (tables s t))\<rparr>))"

text \<open>
  The sequence of calls that the specification gives for
  \<^verbatim>\<open>update(name, version, uris, has_changed, source_updated, updated, updated_by)\<close>:
  connect, begin, five single-column updates keyed on \<^verbatim>\<open>name\<close>, commit, close.
\<close>

definition update_sequence ::
  "string \<Rightarrow> string \<Rightarrow> pyval \<Rightarrow> pyval \<Rightarrow> pyval \<Rightarrow> pyval \<Rightarrow> pyval \<Rightarrow> pyval \<Rightarrow> dao_call list" where
  "update_sequence tbl sch name uris has_changed source_updated updated updated_by =
     [Connect, Begin,
      Update tbl ''uris'' uris ''name'' name (Some sch),
      Update tbl ''has_changed'' has_changed ''name'' name (Some sch),
      Update tbl ''source_updated'' source_updated ''name'' name (Some sch),
      Update tbl ''updated'' updated ''name'' name (Some sch),
      Update tbl ''updated_by'' updated_by ''name'' name (Some sch),
      Commit, Close]"

text \<open>Running a list of calls in order, stopping at the first one that raises.\<close>

fun run_calls :: "'s dao \<Rightarrow> dao_call list \<Rightarrow> 's \<Rightarrow> (error + unit) \<times> 's" where
  "run_calls d [] s = (Inr (), s)"
| "run_calls d (c # cs) s =
     (case d c s of (Inl e, s') \<Rightarrow> (Inl e, s') | (Inr _, s') \<Rightarrow> run_calls d cs s')"

text \<open>The table and the schema argument of a call, for the calls that have them.\<close>

fun call_table :: "dao_call \<Rightarrow> string option" where
  "call_table (Create tbl _ _ _) = Some tbl"
| "call_table (Read tbl _ _ _) = Some tbl"
| "call_table (Update tbl _ _ _ _ _) = Some tbl"
| "call_table (Delete tbl _ _ _) = Some tbl"
| "call_table _ = None"

fun call_schema :: "dao_call \<Rightarrow> string option" where
  "call_schema (Create _ _ _ schema) = schema"
| "call_schema (Read _ _ _ schema) = schema"
| "call_schema (Update _ _ _ _ _ schema) = schema"
| "call_schema (Delete _ _ _ schema) = schema"
| "call_schema _ = None"

fun is_storage_op :: "dao_call \<Rightarrow> bool" where
  "is_storage_op Connect = False"
| "is_storage_op Begin = False"
| "is_storage_op Commit = False"
| "is_storage_op Close = False"
| "is_storage_op _ = True"

text \<open>The empty storage.\<close>

definition empty_pg :: pg where
  "empty_pg = \<lparr>tables = (\<lambda>_. []), connected = False, in_transaction = False\<rparr>"

text \<open>The credentials of the test configuration (\<^verbatim>\<open>tests/test_data/test_config.py\<close>).\<close>

definition aact_credentials :: "(string \<times> string) list" where
  "aact_credentials =
     [(''database'', ''AACT''), (''user'', ''postgres''),
      (''host'', ''localhost''), (''port'', ''5432'')]"


text \<open>A storage that rejects every write to one column.\<close>

definition rejects_column :: "string \<Rightarrow> dao_call \<Rightarrow> bool" where
  "rejects_column col c = (case c of Update _ column _ _ _ _ \<Rightarrow> column = col | _ \<Rightarrow> False)"

text \<open>
  The scenario of the specification: the data source \<^verbatim>\<open>fda_events\<close> is created with version
  1, then updated with version 2.
\<close>

definition fda_events_created :: pg where
  "fda_events_created =
     snd (DataSource_create (spec_dao ''public'') (DataSource_init aact_credentials False)
            (PStr ''fda_events'') (PStr ''web'') (PInt 1) (PStr ''https://open.fda.gov'')
            (PStr ''https://api.fda.gov/drug/event.json'') (PStr ''json'') (PInt 7) (PInt 1)
            (PInt 1) (PBool False) (PTime 0) (PTime 0) (PStr ''etl'')
            PNone PNone PNone PNone [] empty_pg)"

definition fda_events_updated :: pg where
  "fda_events_updated =
     snd (DataSource_update (spec_dao ''public'') (DataSource_init aact_credentials False)
            (PStr ''fda_events'') (PInt 2) (PList [PStr ''https://api.fda.gov/drug/event.json''])
            (PBool True) (PTime 1) (PTime 1) (PStr ''etl'') fda_events_created)"

section \<open>Sequencing and traces\<close>

lemma andthen_last: "andthen (d c) return_None = run_calls d [c]"
  by (rule ext) (simp add: andthen_def return_None_def split: prod.splits sum.splits)

lemma andthen_step: "andthen (d c) (run_calls d cs) = run_calls d (c # cs)"
  by (rule ext) (simp add: andthen_def)

lemma DataSource_update_run:
  "DataSource_update d self name version uris has_changed source_updated updated updated_by =
   run_calls d (update_sequence (DataSource.self_table self) (Artifact.self_schema self)
     name uris has_changed source_updated updated updated_by)"
  unfolding DataSource_update_def update_sequence_def
  by (simp only: andthen_last andthen_step)

lemma run_calls_traced_log:
  "\<exists>n\<le>length cs. snd (snd (run_calls (traced d) cs (s, lg))) = lg @ take n cs
     \<and> (fst (run_calls (traced d) cs (s, lg)) = Inr () \<longrightarrow> n = length cs)
     \<and> (cs \<noteq> [] \<longrightarrow> 0 < n)"
proof (induction cs arbitrary: s lg)
  case Nil
  show ?case by simp
next
  case (Cons c cs)
  obtain r s' where d: "d c s = (r, s')" by (cases "d c s")
  show ?case
  proof (cases r)
    case (Inl e)
    with d have "run_calls (traced d) (c # cs) (s, lg) = (Inl e, (s', lg @ [c]))"
      by (simp add: traced_def)
    then show ?thesis by (intro exI[of _ 1]) (simp del: run_calls.simps)
  next
    case (Inr rows)
    with d have eq: "run_calls (traced d) (c # cs) (s, lg) = run_calls (traced d) cs (s', lg @ [c])"
      by (simp add: traced_def)
    from Cons.IH[of s' "lg @ [c]"] obtain n where
      n: "n \<le> length cs" "snd (snd (run_calls (traced d) cs (s', lg @ [c]))) = (lg @ [c]) @ take n cs"
         "fst (run_calls (traced d) cs (s', lg @ [c])) = Inr () \<longrightarrow> n = length cs"
      by blast
    show ?thesis
      using n by (intro exI[of _ "Suc n"]) (simp add: eq del: run_calls.simps)
  qed
qed

lemma spec_dao_succeeds: "\<exists>rows. fst (spec_dao dflt c s) = Inr rows"
  by (cases c) (simp_all add: Let_def)

lemma run_calls_accepted:
  "\<forall>c\<in>set cs. \<not> rej c \<Longrightarrow>
   run_calls (traced (rejecting rej (spec_dao dflt))) cs (s, lg) =
     (Inr (), (snd (run_calls (spec_dao dflt) cs s), lg @ cs))"
proof (induction cs arbitrary: s lg)
  case Nil
  show ?case by simp
next
  case (Cons c cs)
  obtain rows where "fst (spec_dao dflt c s) = Inr rows"
    using spec_dao_succeeds by blast
  then obtain s' where d: "spec_dao dflt c s = (Inr rows, s')"
    by (cases "spec_dao dflt c s") simp
  from Cons.prems have c: "\<not> rej c" and cs: "\<forall>c\<in>set cs. \<not> rej c" by simp_all
  show ?case
    using Cons.IH[OF cs, of s' "lg @ [c]"] c d
    by (simp add: traced_def rejecting_def)
qed

lemma run_calls_traced_accepting:
  "\<forall>c s. \<exists>rows. fst (d c s) = Inr rows \<Longrightarrow>
   run_calls (traced d) cs (s, lg) = (Inr (), (snd (run_calls d cs s), lg @ cs))"
proof (induction cs arbitrary: s lg)
  case Nil
  show ?case by simp
next
  case (Cons c cs)
  from Cons.prems obtain rows where "fst (d c s) = Inr rows"
    by blast
  then obtain s' where d: "d c s = (Inr rows, s')"
    by (cases "d c s") simp
  show ?case
    using Cons.IH[OF Cons.prems, of s' "lg @ [c]"] d
    by (simp add: traced_def)
qed

lemma run_calls_append:
  "run_calls d (xs @ ys) st =
     (case run_calls d xs st of (Inl e, st') \<Rightarrow> (Inl e, st') | (Inr _, st') \<Rightarrow> run_calls d ys st')"
  by (induction xs arbitrary: st) (auto split: prod.splits sum.splits)

lemma run_calls_rejected:
  assumes "n < length cs" and "\<forall>c\<in>set (take n cs). \<not> rej c" and "rej (cs ! n)"
  shows "run_calls (traced (rejecting rej (spec_dao dflt))) cs (s, []) =
     (Inl (StorageError (cs ! n)),
      (snd (run_calls (spec_dao dflt) (take n cs) s), take (Suc n) cs))"
proof -
  have split: "cs = take n cs @ (cs ! n) # drop (Suc n) cs"
    using assms(1) by (rule id_take_nth_drop)
  have "run_calls (traced (rejecting rej (spec_dao dflt))) (take n cs @ (cs ! n) # drop (Suc n) cs) (s, []) =
     (Inl (StorageError (cs ! n)),
      (snd (run_calls (spec_dao dflt) (take n cs) s), take n cs @ [cs ! n]))"
    using assms(3) by (simp add: run_calls_append run_calls_accepted[OF assms(2)] traced_def rejecting_def)
  then show ?thesis
    using split assms(1) by (simp add: take_Suc_conv_app_nth)
qed

lemma DataSource_init_fields [simp]:
  "DataSource.self_table (DataSource_init credentials autocommit) = ''datasource''"
  "Artifact.self_schema (DataSource_init credentials autocommit) = ''public''"
  "Artifact.self_dao (DataSource_init credentials autocommit) = PGDao []"
  "self_connection_factory (DataSource_init credentials autocommit) = PGConnectionFactory []"
  by (simp_all add: DataSource_init_def Artifact_init_def Artifact.defs DataSource.defs)

lemma DataSourceEvent_init_fields [simp]:
  "DataSourceEvent.self_table (DataSourceEvent_init credentials) = ''datasourceevent''"
  "Event.self_schema (DataSourceEvent_init credentials) = ''public''"
  "Event.self_dao (DataSourceEvent_init credentials) =
     PGDao [Credentials credentials, Autocommit True]"
  "self_credentials (DataSourceEvent_init credentials) = credentials"
  by (simp_all add: DataSourceEvent_init_def Event_init_def Event.defs DataSourceEvent.defs)

lemma append_items_eq:
  "append_items kwargs (columns, values) = (columns @ map fst kwargs, values @ map snd kwargs)"
  by (induction kwargs arbitrary: columns "values") auto

lemma traced_single:
  "snd (snd (andthen (traced d c) return_None (s, lg))) = lg @ [c]"
  by (simp add: andthen_def traced_def return_None_def split: prod.splits sum.splits)

section \<open>The call sequence of \<^verbatim>\<open>DataSource.update\<close>\<close>

text \<open>
  Claim C2. Every call to \<^verbatim>\<open>DataSource.update\<close> executes this sequence of data-access
  operations, in this order: connect, begin, five single-column updates with where_key
  \<^verbatim>\<open>name\<close> and where_value the name argument (columns \<^verbatim>\<open>uris\<close>, \<^verbatim>\<open>has_changed\<close>,
  \<^verbatim>\<open>source_updated\<close>, \<^verbatim>\<open>updated\<close>, \<^verbatim>\<open>updated_by\<close>), commit, close. On every
  data-access object the method is the run of exactly these nine calls, each made once the
  one before has returned. On a data-access object whose calls all return, the method returns
  and the calls received are the whole sequence. In general the calls received are a
  non-empty initial part of the sequence, and all of it whenever the method returns.
\<close>

theorem DataSource_update_call_sequence:
  "DataSource_update d self name version uris has_changed source_updated updated updated_by =
     run_calls d
       [Connect, Begin,
        Update (DataSource.self_table self) ''uris'' uris
          ''name'' name (Some (Artifact.self_schema self)),
        Update (DataSource.self_table self) ''has_changed'' has_changed
          ''name'' name (Some (Artifact.self_schema self)),
        Update (DataSource.self_table self) ''source_updated'' source_updated
          ''name'' name (Some (Artifact.self_schema self)),
        Update (DataSource.self_table self) ''updated'' updated
          ''name'' name (Some (Artifact.self_schema self)),
        Update (DataSource.self_table self) ''updated_by'' updated_by
          ''name'' name (Some (Artifact.self_schema self)),
        Commit, Close]
   \<and> ((\<forall>c s'. \<exists>rows. fst (d c s') = Inr rows) \<longrightarrow>
       fst (DataSource_update (traced d) self name version uris has_changed
              source_updated updated updated_by (s, [])) = Inr ()
       \<and> snd (snd (DataSource_update (traced d) self name version uris has_changed
                     source_updated updated updated_by (s, []))) =
           [Connect, Begin,
            Update (DataSource.self_table self) ''uris'' uris
              ''name'' name (Some (Artifact.self_schema self)),
            Update (DataSource.self_table self) ''has_changed'' has_changed
              ''name'' name (Some (Artifact.self_schema self)),
            Update (DataSource.self_table self) ''source_updated'' source_updated
              ''name'' name (Some (Artifact.self_schema self)),
            Update (DataSource.self_table self) ''updated'' updated
              ''name'' name (Some (Artifact.self_schema self)),
            Update (DataSource.self_table self) ''updated_by'' updated_by
              ''name'' name (Some (Artifact.self_schema self)),
            Commit, Close])
   \<and> prefix (snd (snd (DataSource_update (traced d) self name version uris has_changed
                       source_updated updated updated_by (s, []))))
          (update_sequence (DataSource.self_table self) (Artifact.self_schema self)
             name uris has_changed source_updated updated updated_by)
   \<and> snd (snd (DataSource_update (traced d) self name version uris has_changed
                   source_updated updated updated_by (s, []))) \<noteq> []
   \<and> (fst (DataSource_update (traced d) self name version uris has_changed
              source_updated updated updated_by (s, [])) = Inr () \<longrightarrow>
       snd (snd (DataSource_update (traced d) self name version uris has_changed
                   source_updated updated updated_by (s, []))) =
         [Connect, Begin,
          Update (DataSource.self_table self) ''uris'' uris
            ''name'' name (Some (Artifact.self_schema self)),
          Update (DataSource.self_table self) ''has_changed'' has_changed
            ''name'' name (Some (Artifact.self_schema self)),
          Update (DataSource.self_table self) ''source_updated'' source_updated
            ''name'' name (Some (Artifact.self_schema self)),
          Update (DataSource.self_table self) ''updated'' updated
            ''name'' name (Some (Artifact.self_schema self)),
          Update (DataSource.self_table self) ''updated_by'' updated_by
            ''name'' name (Some (Artifact.self_schema self)),
          Commit, Close])"
proof -
  let ?full = "update_sequence (DataSource.self_table self) (Artifact.self_schema self)
                 name uris has_changed source_updated updated updated_by"
  let ?res = "DataSource_update (traced d) self name version uris has_changed
                source_updated updated updated_by (s, [])"
  have full: "?full = [Connect, Begin,
          Update (DataSource.self_table self) ''uris'' uris
            ''name'' name (Some (Artifact.self_schema self)),
          Update (DataSource.self_table self) ''has_changed'' has_changed
            ''name'' name (Some (Artifact.self_schema self)),
          Update (DataSource.self_table self) ''source_updated'' source_updated
            ''name'' name (Some (Artifact.self_schema self)),
          Update (DataSource.self_table self) ''updated'' updated
            ''name'' name (Some (Artifact.self_schema self)),
          Update (DataSource.self_table self) ''updated_by'' updated_by
            ''name'' name (Some (Artifact.self_schema self)),
          Commit, Close]"
    by (simp add: update_sequence_def)
  have run: "DataSource_update d self name version uris has_changed source_updated updated
               updated_by = run_calls d ?full"
    by (rule DataSource_update_run)
  have traced_run: "?res = run_calls (traced d) ?full (s, [])"
    by (simp only: DataSource_update_run)
  obtain n where n: "n \<le> length ?full"
      "snd (snd (run_calls (traced d) ?full (s, []))) = [] @ take n ?full"
      "fst (run_calls (traced d) ?full (s, [])) = Inr () \<longrightarrow> n = length ?full"
      "?full \<noteq> [] \<longrightarrow> 0 < n"
    using run_calls_traced_log[of ?full d s "[]"] by blast
  have pre: "prefix (snd (snd ?res)) ?full"
    unfolding traced_run n(2) by (simp add: take_is_prefix)
  have nonempty: "snd (snd ?res) \<noteq> []"
  proof -
    have "?full \<noteq> []" by (simp add: update_sequence_def)
    with n(4) have "0 < n" by blast
    then show ?thesis
      unfolding traced_run n(2) by (simp add: update_sequence_def)
  qed
  have whole: "snd (snd ?res) = ?full" if "fst ?res = Inr ()"
    using that n(2,3) unfolding traced_run by simp
  have accepted: "fst ?res = Inr () \<and> snd (snd ?res) = ?full"
    if "\<forall>c s'. \<exists>rows. fst (d c s') = Inr rows"
    unfolding traced_run run_calls_traced_accepting[OF that] by simp
  show ?thesis
    using run pre nonempty whole accepted unfolding full by blast
qed

theorem DataSource_update_call_sequence_witness:
  "(\<forall>c s. \<exists>rows. fst (spec_dao ''public'' c s) = Inr rows)
   \<and> fst (DataSource_update (traced (spec_dao ''public'')) (DataSource_init aact_credentials False)
          (PStr ''fda_events'') (PInt 2) (PList [PStr ''https://open.fda.gov''])
          (PBool True) (PTime 1) (PTime 1) (PStr ''etl'') (empty_pg, [])) = Inr ()
   \<and> snd (snd (DataSource_update (traced (spec_dao ''public''))
                 (DataSource_init aact_credentials False)
                 (PStr ''fda_events'') (PInt 2) (PList [PStr ''https://open.fda.gov''])
                 (PBool True) (PTime 1) (PTime 1) (PStr ''etl'') (empty_pg, []))) =
       [Connect, Begin,
        Update ''datasource'' ''uris'' (PList [PStr ''https://open.fda.gov''])
          ''name'' (PStr ''fda_events'') (Some ''public''),
        Update ''datasource'' ''has_changed'' (PBool True)
          ''name'' (PStr ''fda_events'') (Some ''public''),
        Update ''datasource'' ''source_updated'' (PTime 1)
          ''name'' (PStr ''fda_events'') (Some ''public''),
        Update ''datasource'' ''updated'' (PTime 1)
          ''name'' (PStr ''fda_events'') (Some ''public''),
        Update ''datasource'' ''updated_by'' (PStr ''etl'')
          ''name'' (PStr ''fda_events'') (Some ''public''),
        Commit, Close]"
proof -
  have accepts: "\<forall>c s. \<exists>rows. fst (spec_dao ''public'' c s) = Inr rows"
    by (intro allI spec_dao_succeeds)
  note t = DataSource_update_call_sequence[where d = "spec_dao ''public''"
      and self = "DataSource_init aact_credentials False" and name = "PStr ''fda_events''"
      and version = "PInt 2" and uris = "PList [PStr ''https://open.fda.gov'']"
      and has_changed = "PBool True" and source_updated = "PTime 1" and updated = "PTime 1"
      and updated_by = "PStr ''etl''" and s = empty_pg]
  from mp[OF t[THEN conjunct2, THEN conjunct1] accepts] accepts
  show ?thesis
    by simp
qed

section \<open>Creation\<close>

text \<open>
  Claim C9. In every call to \<^verbatim>\<open>DataSource.create\<close> the columns and values lists handed to
  the data-access object have the same length and are aligned by position: the first 17
  entries are the fixed attribute names (name through maintainer) with the corresponding
  parameters, and every extra keyword attribute follows as a key and its value, in keyword
  order.
\<close>

theorem DataSource_create_columns_values_aligned:
  "case DataSource_create_lists name source_type version webpage link link_type frequency
          lifecycle creator has_changed source_updated created created_by title description
          coverage maintainer kwargs of
     (columns, values) \<Rightarrow>
       snd (snd (DataSource_create (traced d) self name source_type version webpage link
                   link_type frequency lifecycle creator has_changed source_updated created
                   created_by title description coverage maintainer kwargs (s, []))) =
         [Create (DataSource.self_table self) columns values (Some (Artifact.self_schema self))]
       \<and> length columns = length values
       \<and> length columns = 17 + length kwargs
       \<and> take 17 columns =
           [''name'', ''source_type'', ''version'', ''webpage'', ''link'', ''link_type'',
            ''frequency'', ''lifecycle'', ''creator'', ''has_changed'', ''source_updated'',
            ''created'', ''created_by'', ''title'', ''description'', ''coverage'',
            ''maintainer'']
       \<and> take 17 values =
           [name, source_type, version, webpage, link, link_type, frequency, lifecycle,
            creator, has_changed, source_updated, created, created_by, title, description,
            coverage, maintainer]
       \<and> drop 17 columns = map fst kwargs
       \<and> drop 17 values = map snd kwargs
       \<and> zip columns values =
           [(''name'', name), (''source_type'', source_type), (''version'', version),
            (''webpage'', webpage), (''link'', link), (''link_type'', link_type),
            (''frequency'', frequency), (''lifecycle'', lifecycle), (''creator'', creator),
            (''has_changed'', has_changed), (''source_updated'', source_updated),
            (''created'', created), (''created_by'', created_by), (''title'', title),
            (''description'', description), (''coverage'', coverage),
            (''maintainer'', maintainer)] @ kwargs"
  by (simp add: DataSource_create_lists_def DataSource_create_def append_items_eq
        traced_single zip_map_fst_snd)

section \<open>Constructors\<close>

text \<open>
  Claim C10. The \<^verbatim>\<open>Artifact\<close> base constructor discards its arguments: whatever
  credentials and autocommit value \<^verbatim>\<open>DataSource\<close> is built with, its data-access object and
  its connection factory are built with no argument at all. The \<^verbatim>\<open>Event\<close> base constructor
  passes the credentials and autocommit it receives on to its data-access object.
\<close>

theorem Artifact_discards_arguments_Event_passes_them:
  "Artifact_init kwargs = Artifact_init []
   \<and> Artifact.self_dao (DataSource_init credentials autocommit) = PGDao []
   \<and> self_connection_factory (DataSource_init credentials autocommit) = PGConnectionFactory []
   \<and> DataSource_init credentials autocommit = DataSource_init credentials' autocommit'
   \<and> Event.self_dao (Event_init credentials autocommit) =
       PGDao [Credentials credentials, Autocommit autocommit]
   \<and> Event.self_dao (DataSourceEvent_init credentials) =
       PGDao [Credentials credentials, Autocommit True]"
proof -
  have "DataSource_init credentials autocommit = DataSource_init credentials' autocommit'"
    by (simp add: DataSource_init_def Artifact_init_def)
  then show ?thesis
    by (simp add: Artifact_init_def Event_init_def)
qed

section \<open>Failure inside \<^verbatim>\<open>DataSource.update\<close>\<close>

text \<open>
  Claim C3. If one of the five column updates inside \<^verbatim>\<open>DataSource.update\<close> raises after the
  earlier calls succeeded, the failure propagates to the caller, the calls made are exactly
  those up to the failing update (so neither commit nor close is reached and nothing else,
  such as a rollback, is issued), the storage is in the state that the earlier calls left,
  and the transaction and the connection are still open. Here \<open>k\<close> counts the column
  updates that succeed before the failing one.
\<close>

theorem DataSource_update_failure_leaves_transaction_open:
  assumes "k < 5"
    and "\<forall>c \<in> set (take (2 + k) (update_sequence (DataSource.self_table self)
            (Artifact.self_schema self) name uris has_changed source_updated updated
            updated_by)). \<not> rej c"
    and "rej (update_sequence (DataSource.self_table self) (Artifact.self_schema self)
            name uris has_changed source_updated updated updated_by ! (2 + k))"
  shows "fst (DataSource_update (traced (rejecting rej (spec_dao dflt))) self name version
               uris has_changed source_updated updated updated_by (s, [])) =
           Inl (StorageError
             (update_sequence (DataSource.self_table self) (Artifact.self_schema self)
                name uris has_changed source_updated updated updated_by ! (2 + k)))
         \<and> snd (snd (DataSource_update (traced (rejecting rej (spec_dao dflt))) self name
                       version uris has_changed source_updated updated updated_by (s, []))) =
             take (3 + k) (update_sequence (DataSource.self_table self)
               (Artifact.self_schema self) name uris has_changed source_updated updated
               updated_by)
         \<and> fst (snd (DataSource_update (traced (rejecting rej (spec_dao dflt))) self name
                       version uris has_changed source_updated updated updated_by (s, []))) =
             snd (run_calls (spec_dao dflt)
               (take (2 + k) (update_sequence (DataSource.self_table self)
                  (Artifact.self_schema self) name uris has_changed source_updated updated
                  updated_by)) s)
         \<and> Commit \<notin> set (snd (snd (DataSource_update (traced (rejecting rej (spec_dao dflt)))
               self name version uris has_changed source_updated updated updated_by (s, []))))
         \<and> Close \<notin> set (snd (snd (DataSource_update (traced (rejecting rej (spec_dao dflt)))
               self name version uris has_changed source_updated updated updated_by (s, []))))
         \<and> in_transaction (fst (snd (DataSource_update (traced (rejecting rej (spec_dao dflt)))
               self name version uris has_changed source_updated updated updated_by (s, []))))
         \<and> connected (fst (snd (DataSource_update (traced (rejecting rej (spec_dao dflt)))
               self name version uris has_changed source_updated updated updated_by (s, []))))"
proof -
  let ?full = "update_sequence (DataSource.self_table self) (Artifact.self_schema self)
                 name uris has_changed source_updated updated updated_by"
  let ?res = "DataSource_update (traced (rejecting rej (spec_dao dflt))) self name version
                uris has_changed source_updated updated updated_by (s, [])"
  have len: "2 + k < length ?full"
    using assms(1) by (simp add: update_sequence_def)
  have res: "?res = (Inl (StorageError (?full ! (2 + k))),
                     (snd (run_calls (spec_dao dflt) (take (2 + k) ?full) s),
                      take (Suc (2 + k)) ?full))"
    unfolding DataSource_update_run
    by (rule run_calls_rejected[OF len assms(2) assms(3)])
  from assms(1) have k: "k = 0 \<or> k = 1 \<or> k = 2 \<or> k = 3 \<or> k = 4"
    by arith
  have nocommit: "Commit \<notin> set (take (Suc (2 + k)) ?full)"
    using k by (auto simp: update_sequence_def)
  have noclose: "Close \<notin> set (take (Suc (2 + k)) ?full)"
    using k by (auto simp: update_sequence_def)
  have open_txn: "in_transaction (snd (run_calls (spec_dao dflt) (take (2 + k) ?full) s))"
    using k by (auto simp: update_sequence_def Let_def)
  have conn: "connected (snd (run_calls (spec_dao dflt) (take (2 + k) ?full) s))"
    using k by (auto simp: update_sequence_def Let_def)
  have three: "3 + k = Suc (2 + k)"
    by simp
  show ?thesis
    unfolding res three using nocommit noclose open_txn conn by simp
qed

theorem DataSource_update_failure_leaves_transaction_open_witness:
  "(2::nat) < 5
   \<and> fst (DataSource_update (traced (rejecting (rejects_column ''source_updated'')
            (spec_dao ''public''))) (DataSource_init aact_credentials False)
            (PStr ''fda_events'') (PInt 2) (PList []) (PBool True) (PTime 1) (PTime 1)
            (PStr ''etl'') (fda_events_created, [])) =
       Inl (StorageError (Update ''datasource'' ''source_updated'' (PTime 1)
              ''name'' (PStr ''fda_events'') (Some ''public'')))
   \<and> snd (snd (DataSource_update (traced (rejecting (rejects_column ''source_updated'')
            (spec_dao ''public''))) (DataSource_init aact_credentials False)
            (PStr ''fda_events'') (PInt 2) (PList []) (PBool True) (PTime 1) (PTime 1)
            (PStr ''etl'') (fda_events_created, []))) =
       [Connect, Begin,
        Update ''datasource'' ''uris'' (PList []) ''name'' (PStr ''fda_events'')
          (Some ''public''),
        Update ''datasource'' ''has_changed'' (PBool True) ''name'' (PStr ''fda_events'')
          (Some ''public''),
        Update ''datasource'' ''source_updated'' (PTime 1) ''name'' (PStr ''fda_events'')
          (Some ''public'')]
   \<and> in_transaction (fst (snd (DataSource_update
            (traced (rejecting (rejects_column ''source_updated'') (spec_dao ''public'')))
            (DataSource_init aact_credentials False)
            (PStr ''fda_events'') (PInt 2) (PList []) (PBool True) (PTime 1) (PTime 1)
            (PStr ''etl'') (fda_events_created, []))))"
proof -
  let ?full = "update_sequence (DataSource.self_table (DataSource_init aact_credentials False))
       (Artifact.self_schema (DataSource_init aact_credentials False))
       (PStr ''fda_events'') (PList []) (PBool True) (PTime 1) (PTime 1) (PStr ''etl'')"
  have k: "(2::nat) < 5"
    by simp
  have before: "\<forall>c \<in> set (take (2 + 2) ?full). \<not> rejects_column ''source_updated'' c"
    by (simp add: update_sequence_def rejects_column_def)
  have bad: "rejects_column ''source_updated'' (?full ! (2 + 2))"
    by (simp add: update_sequence_def rejects_column_def)
  from DataSource_update_failure_leaves_transaction_open[OF k before bad,
      of "''public''" "PInt 2" fda_events_created]
  show ?thesis
    by (simp add: update_sequence_def Let_def)
qed

section \<open>The version column\<close>

lemma fda_events_created_tables:
  "tables fda_events_created = (\<lambda>_. [])((''public'', ''datasource'') :=
     [[(''name'', PStr ''fda_events''), (''source_type'', PStr ''web''), (''version'', PInt 1),
       (''webpage'', PStr ''https://open.fda.gov''),
       (''link'', PStr ''https://api.fda.gov/drug/event.json''), (''link_type'', PStr ''json''),
       (''frequency'', PInt 7), (''lifecycle'', PInt 1), (''creator'', PInt 1),
       (''has_changed'', PBool False), (''source_updated'', PTime 0), (''created'', PTime 0),
       (''created_by'', PStr ''etl''), (''title'', PNone), (''description'', PNone),
       (''coverage'', PNone), (''maintainer'', PNone)]])"
  by (simp add: fda_events_created_def DataSource_create_def DataSource_create_lists_def
        andthen_def return_None_def target_def empty_pg_def Let_def)


lemma DataSource_update_ignores_version:
  "DataSource_update d self name version uris has_changed source_updated updated updated_by =
   DataSource_update d self name version' uris has_changed source_updated updated updated_by"
  by (simp add: DataSource_update_def)

text \<open>
  Claim C1. After \<^verbatim>\<open>update\<close> on an existing row, \<^verbatim>\<open>read(name)\<close> returns a row whose
  version column equals the version argument of \<^verbatim>\<open>update\<close>. The method accepts the version
  argument and never hands it to the data-access object: in the scenario of the
  specification the row read back after \<^verbatim>\<open>update("fda_events", version=2, ...)\<close> has
  \<^verbatim>\<open>has_changed == True\<close> and still \<^verbatim>\<open>version == 1\<close>.
\<close>

theorem DataSource_update_keeps_old_version:
  "fst (DataSource_read (spec_dao ''public'') (DataSource_init aact_credentials False)
          (PStr ''fda_events'') fda_events_updated) =
     Inr [[(''name'', PStr ''fda_events''), (''source_type'', PStr ''web''),
           (''version'', PInt 1), (''webpage'', PStr ''https://open.fda.gov''),
           (''link'', PStr ''https://api.fda.gov/drug/event.json''),
           (''link_type'', PStr ''json''), (''frequency'', PInt 7),
           (''lifecycle'', PInt 1), (''creator'', PInt 1),
           (''has_changed'', PBool True), (''source_updated'', PTime 1),
           (''created'', PTime 0), (''created_by'', PStr ''etl''),
           (''title'', PNone), (''description'', PNone), (''coverage'', PNone),
           (''maintainer'', PNone),
           (''uris'', PList [PStr ''https://api.fda.gov/drug/event.json'']),
           (''updated'', PTime 1), (''updated_by'', PStr ''etl'')]]"
  by (simp add: fda_events_updated_def DataSource_update_def DataSource_read_def
        fda_events_created_tables andthen_def return_None_def target_def matches_def Let_def)

section \<open>Reading back after \<^verbatim>\<open>DataSource.update\<close>\<close>

lemma matches_update_other:
  "column \<noteq> k \<Longrightarrow> matches k v (AList.update column x r) = matches k v r"
  by (simp add: matches_def update_conv')

lemma filter_update_rows:
  "column \<noteq> k \<Longrightarrow>
   filter (matches k v)
     (map (\<lambda>r. if matches k v r then AList.update column x r else r) rows) =
   map (AList.update column x) (filter (matches k v) rows)"
  by (induction rows) (simp_all add: matches_update_other)

text \<open>
  Claim C4. For \<^verbatim>\<open>DataSource.update\<close> on an existing row, a following \<^verbatim>\<open>read(name)\<close> shows
  all five updated columns (\<^verbatim>\<open>uris\<close>, \<^verbatim>\<open>has_changed\<close>, \<^verbatim>\<open>source_updated\<close>, \<^verbatim>\<open>updated\<close>,
  \<^verbatim>\<open>updated_by\<close>) with their new values at once, and every other column (name, created,
  created_by and the other attributes given at creation) with the value it had before.
  The update returns; the rows read back are exactly the rows of that name as they were
  before, each with the five columns set; and a row \<open>r\<close> of that name that exists before the
  update is read back after it, with the five new values and all its other columns.
\<close>

theorem DataSource_update_frame:
  assumes "name \<noteq> PNone"
  shows "fst (DataSource_update (spec_dao dflt) self name version uris has_changed
                source_updated updated updated_by s) = Inr ()
         \<and> fst (DataSource_read (spec_dao dflt) self name s) =
             Inr (filter (\<lambda>r. map_of r ''name'' = Some name)
                    (tables s (Artifact.self_schema self, DataSource.self_table self)))
         \<and> fst (DataSource_read (spec_dao dflt) self name
                  (snd (DataSource_update (spec_dao dflt) self name version uris
                          has_changed source_updated updated updated_by s))) =
             Inr (map (\<lambda>r. AList.update ''updated_by'' updated_by
                         (AList.update ''updated'' updated
                           (AList.update ''source_updated'' source_updated
                             (AList.update ''has_changed'' has_changed
                               (AList.update ''uris'' uris r)))))
                    (filter (\<lambda>r. map_of r ''name'' = Some name)
                       (tables s (Artifact.self_schema self, DataSource.self_table self))))
         \<and> (\<exists>rows rows'.
               fst (DataSource_read (spec_dao dflt) self name s) = Inr rows
             \<and> fst (DataSource_read (spec_dao dflt) self name
                      (snd (DataSource_update (spec_dao dflt) self name version uris
                              has_changed source_updated updated updated_by s))) = Inr rows'
             \<and> list_all2 (\<lambda>r r'. map_of r' =
                   (map_of r)(''uris'' \<mapsto> uris, ''has_changed'' \<mapsto> has_changed,
                              ''source_updated'' \<mapsto> source_updated,
                              ''updated'' \<mapsto> updated, ''updated_by'' \<mapsto> updated_by))
                 rows rows')
         \<and> (r \<in> set (tables s (Artifact.self_schema self, DataSource.self_table self))
              \<and> map_of r ''name'' = Some name \<longrightarrow>
             (\<exists>rows rows' r'.
                 fst (DataSource_read (spec_dao dflt) self name s) = Inr rows
               \<and> fst (DataSource_read (spec_dao dflt) self name
                        (snd (DataSource_update (spec_dao dflt) self name version uris
                                has_changed source_updated updated updated_by s))) = Inr rows'
               \<and> r \<in> set rows \<and> r' \<in> set rows' \<and> length rows' = length rows
               \<and> map_of r' ''uris'' = Some uris
               \<and> map_of r' ''has_changed'' = Some has_changed
               \<and> map_of r' ''source_updated'' = Some source_updated
               \<and> map_of r' ''updated'' = Some updated
               \<and> map_of r' ''updated_by'' = Some updated_by
               \<and> (\<forall>c. c \<notin> {''uris'', ''has_changed'', ''source_updated'', ''updated'',
                             ''updated_by''} \<longrightarrow> map_of r' c = map_of r c)))"
proof -
  let ?t = "(Artifact.self_schema self, DataSource.self_table self)"
  let ?rows = "filter (matches ''name'' name) (tables s ?t)"
  let ?upd = "\<lambda>r. AList.update ''updated_by'' updated_by
                 (AList.update ''updated'' updated
                   (AList.update ''source_updated'' source_updated
                     (AList.update ''has_changed'' has_changed
                       (AList.update ''uris'' uris r))))"
  let ?after = "fst (DataSource_read (spec_dao dflt) self name
                      (snd (DataSource_update (spec_dao dflt) self name version uris
                              has_changed source_updated updated updated_by s)))"
  have m: "matches ''name'' name = (\<lambda>r. map_of r ''name'' = Some name)"
    by (rule ext) (simp add: matches_def)
  have ok: "fst (DataSource_update (spec_dao dflt) self name version uris has_changed
                   source_updated updated updated_by s) = Inr ()"
    by (simp add: DataSource_update_run update_sequence_def Let_def)
  have before: "fst (DataSource_read (spec_dao dflt) self name s) = Inr ?rows"
    using assms by (simp add: DataSource_read_def target_def)
  have "?after =
               Inr (map (AList.update ''updated_by'' updated_by)
                     (map (AList.update ''updated'' updated)
                       (map (AList.update ''source_updated'' source_updated)
                         (map (AList.update ''has_changed'' has_changed)
                           (map (AList.update ''uris'' uris) ?rows)))))"
    using assms
    by (simp add: DataSource_read_def DataSource_update_run update_sequence_def target_def
          Let_def filter_update_rows del: map_map)
  also have "\<dots> = Inr (map ?upd ?rows)"
    by (simp add: comp_def)
  finally have after: "?after = Inr (map ?upd ?rows)" .
  have upd: "map_of (?upd r) =
                   (map_of r)(''uris'' \<mapsto> uris, ''has_changed'' \<mapsto> has_changed,
                              ''source_updated'' \<mapsto> source_updated,
                              ''updated'' \<mapsto> updated, ''updated_by'' \<mapsto> updated_by)" for r
    by (simp add: update_conv')
  have rel: "list_all2 (\<lambda>r r'. map_of r' =
                   (map_of r)(''uris'' \<mapsto> uris, ''has_changed'' \<mapsto> has_changed,
                              ''source_updated'' \<mapsto> source_updated,
                              ''updated'' \<mapsto> updated, ''updated_by'' \<mapsto> updated_by))
          ?rows (map ?upd ?rows)"
    by (simp add: list_all2_map2 list_all2_same update_conv')
  have existing: "\<exists>rows rows' r'.
                 fst (DataSource_read (spec_dao dflt) self name s) = Inr rows
               \<and> ?after = Inr rows'
               \<and> r \<in> set rows \<and> r' \<in> set rows' \<and> length rows' = length rows
               \<and> map_of r' ''uris'' = Some uris
               \<and> map_of r' ''has_changed'' = Some has_changed
               \<and> map_of r' ''source_updated'' = Some source_updated
               \<and> map_of r' ''updated'' = Some updated
               \<and> map_of r' ''updated_by'' = Some updated_by
               \<and> (\<forall>c. c \<notin> {''uris'', ''has_changed'', ''source_updated'', ''updated'',
                             ''updated_by''} \<longrightarrow> map_of r' c = map_of r c)"
    if "r \<in> set (tables s ?t)" "map_of r ''name'' = Some name"
  proof -
    from that have mem: "r \<in> set ?rows"
      by (simp add: matches_def)
    then have mem': "?upd r \<in> set (map ?upd ?rows)"
      by (rule imageI[of r "set ?rows" ?upd, unfolded set_map[symmetric]])
    have cols: "map_of (?upd r) ''uris'' = Some uris"
      "map_of (?upd r) ''has_changed'' = Some has_changed"
      "map_of (?upd r) ''source_updated'' = Some source_updated"
      "map_of (?upd r) ''updated'' = Some updated"
      "map_of (?upd r) ''updated_by'' = Some updated_by"
      by (simp_all add: upd)
    have others: "\<forall>c. c \<notin> {''uris'', ''has_changed'', ''source_updated'', ''updated'',
                             ''updated_by''} \<longrightarrow> map_of (?upd r) c = map_of r c"
      by (simp add: upd)
    have len: "length (map ?upd ?rows) = length ?rows"
      by simp
    show ?thesis
      apply (rule exI[of _ ?rows])
      apply (rule exI[of _ "map ?upd ?rows"])
      apply (rule exI[of _ "?upd r"])
      apply (intro conjI before after mem mem' len cols others)
      done
  qed
  have ex2: "\<exists>rows rows'.
               fst (DataSource_read (spec_dao dflt) self name s) = Inr rows
             \<and> ?after = Inr rows'
             \<and> list_all2 (\<lambda>r r'. map_of r' =
                   (map_of r)(''uris'' \<mapsto> uris, ''has_changed'' \<mapsto> has_changed,
                              ''source_updated'' \<mapsto> source_updated,
                              ''updated'' \<mapsto> updated, ''updated_by'' \<mapsto> updated_by))
                 rows rows'"
    apply (rule exI[of _ ?rows])
    apply (rule exI[of _ "map ?upd ?rows"])
    apply (intro conjI before after rel)
    done
  show ?thesis
    apply (intro conjI impI)
        apply (rule ok)
       apply (rule before[unfolded m])
      apply (rule after[unfolded m])
     apply (rule ex2)
    apply (erule conjE)
    apply (erule (1) existing)
    done
qed

theorem DataSource_update_frame_witness:
  "PStr ''fda_events'' \<noteq> PNone
   \<and> [(''name'', PStr ''fda_events''), (''source_type'', PStr ''web''), (''version'', PInt 1),
       (''webpage'', PStr ''https://open.fda.gov''),
       (''link'', PStr ''https://api.fda.gov/drug/event.json''), (''link_type'', PStr ''json''),
       (''frequency'', PInt 7), (''lifecycle'', PInt 1), (''creator'', PInt 1),
       (''has_changed'', PBool False), (''source_updated'', PTime 0), (''created'', PTime 0),
       (''created_by'', PStr ''etl''), (''title'', PNone), (''description'', PNone),
       (''coverage'', PNone), (''maintainer'', PNone)] \<in> set (tables fda_events_created (''public'', ''datasource''))
   \<and> map_of [(''name'', PStr ''fda_events''), (''source_type'', PStr ''web''), (''version'', PInt 1),
       (''webpage'', PStr ''https://open.fda.gov''),
       (''link'', PStr ''https://api.fda.gov/drug/event.json''), (''link_type'', PStr ''json''),
       (''frequency'', PInt 7), (''lifecycle'', PInt 1), (''creator'', PInt 1),
       (''has_changed'', PBool False), (''source_updated'', PTime 0), (''created'', PTime 0),
       (''created_by'', PStr ''etl''), (''title'', PNone), (''description'', PNone),
       (''coverage'', PNone), (''maintainer'', PNone)] ''name'' = Some (PStr ''fda_events'')
   \<and> fst (DataSource_update (spec_dao ''public'') (DataSource_init aact_credentials False)
              (PStr ''fda_events'') (PInt 2)
              (PList [PStr ''https://api.fda.gov/drug/event.json''])
              (PBool True) (PTime 1) (PTime 1) (PStr ''etl'') fda_events_created) = Inr ()
   \<and> fst (DataSource_read (spec_dao ''public'') (DataSource_init aact_credentials False)
            (PStr ''fda_events'') fda_events_created) = Inr [[(''name'', PStr ''fda_events''), (''source_type'', PStr ''web''), (''version'', PInt 1),
       (''webpage'', PStr ''https://open.fda.gov''),
       (''link'', PStr ''https://api.fda.gov/drug/event.json''), (''link_type'', PStr ''json''),
       (''frequency'', PInt 7), (''lifecycle'', PInt 1), (''creator'', PInt 1),
       (''has_changed'', PBool False), (''source_updated'', PTime 0), (''created'', PTime 0),
       (''created_by'', PStr ''etl''), (''title'', PNone), (''description'', PNone),
       (''coverage'', PNone), (''maintainer'', PNone)]]
   \<and> fst (DataSource_read (spec_dao ''public'') (DataSource_init aact_credentials False)
            (PStr ''fda_events'') (snd (DataSource_update (spec_dao ''public'') (DataSource_init aact_credentials False)
              (PStr ''fda_events'') (PInt 2)
              (PList [PStr ''https://api.fda.gov/drug/event.json''])
              (PBool True) (PTime 1) (PTime 1) (PStr ''etl'') fda_events_created))) = Inr [[(''name'', PStr ''fda_events''), (''source_type'', PStr ''web''), (''version'', PInt 1),
       (''webpage'', PStr ''https://open.fda.gov''),
       (''link'', PStr ''https://api.fda.gov/drug/event.json''), (''link_type'', PStr ''json''),
       (''frequency'', PInt 7), (''lifecycle'', PInt 1), (''creator'', PInt 1),
       (''has_changed'', PBool True), (''source_updated'', PTime 1), (''created'', PTime 0),
       (''created_by'', PStr ''etl''), (''title'', PNone), (''description'', PNone),
       (''coverage'', PNone), (''maintainer'', PNone),
       (''uris'', PList [PStr ''https://api.fda.gov/drug/event.json'']),
       (''updated'', PTime 1), (''updated_by'', PStr ''etl'')]]"
proof -
  have given: "PStr ''fda_events'' \<noteq> PNone"
    by simp
  have mem: "[(''name'', PStr ''fda_events''), (''source_type'', PStr ''web''), (''version'', PInt 1),
       (''webpage'', PStr ''https://open.fda.gov''),
       (''link'', PStr ''https://api.fda.gov/drug/event.json''), (''link_type'', PStr ''json''),
       (''frequency'', PInt 7), (''lifecycle'', PInt 1), (''creator'', PInt 1),
       (''has_changed'', PBool False), (''source_updated'', PTime 0), (''created'', PTime 0),
       (''created_by'', PStr ''etl''), (''title'', PNone), (''description'', PNone),
       (''coverage'', PNone), (''maintainer'', PNone)] \<in> set (tables fda_events_created (''public'', ''datasource''))"
    by (simp add: fda_events_created_tables)
  have named: "map_of [(''name'', PStr ''fda_events''), (''source_type'', PStr ''web''), (''version'', PInt 1),
       (''webpage'', PStr ''https://open.fda.gov''),
       (''link'', PStr ''https://api.fda.gov/drug/event.json''), (''link_type'', PStr ''json''),
       (''frequency'', PInt 7), (''lifecycle'', PInt 1), (''creator'', PInt 1),
       (''has_changed'', PBool False), (''source_updated'', PTime 0), (''created'', PTime 0),
       (''created_by'', PStr ''etl''), (''title'', PNone), (''description'', PNone),
       (''coverage'', PNone), (''maintainer'', PNone)] ''name'' = Some (PStr ''fda_events'')"
    by simp
  note t = DataSource_update_frame[OF given, where dflt = "''public''"
      and self = "DataSource_init aact_credentials False" and version = "PInt 2"
      and uris = "PList [PStr ''https://api.fda.gov/drug/event.json'']"
      and has_changed = "PBool True" and source_updated = "PTime 1" and updated = "PTime 1"
      and updated_by = "PStr ''etl''" and s = fda_events_created]
  have ok: "fst (DataSource_update (spec_dao ''public'') (DataSource_init aact_credentials False)
              (PStr ''fda_events'') (PInt 2)
              (PList [PStr ''https://api.fda.gov/drug/event.json''])
              (PBool True) (PTime 1) (PTime 1) (PStr ''etl'') fda_events_created) = Inr ()"
    by (rule t[THEN conjunct1])
  have before: "fst (DataSource_read (spec_dao ''public'') (DataSource_init aact_credentials False)
            (PStr ''fda_events'') fda_events_created) = Inr [[(''name'', PStr ''fda_events''), (''source_type'', PStr ''web''), (''version'', PInt 1),
       (''webpage'', PStr ''https://open.fda.gov''),
       (''link'', PStr ''https://api.fda.gov/drug/event.json''), (''link_type'', PStr ''json''),
       (''frequency'', PInt 7), (''lifecycle'', PInt 1), (''creator'', PInt 1),
       (''has_changed'', PBool False), (''source_updated'', PTime 0), (''created'', PTime 0),
       (''created_by'', PStr ''etl''), (''title'', PNone), (''description'', PNone),
       (''coverage'', PNone), (''maintainer'', PNone)]]"
    using t[THEN conjunct2, THEN conjunct1]
    by (simp add: fda_events_created_tables)
  have after: "fst (DataSource_read (spec_dao ''public'') (DataSource_init aact_credentials False)
            (PStr ''fda_events'') (snd (DataSource_update (spec_dao ''public'') (DataSource_init aact_credentials False)
              (PStr ''fda_events'') (PInt 2)
              (PList [PStr ''https://api.fda.gov/drug/event.json''])
              (PBool True) (PTime 1) (PTime 1) (PStr ''etl'') fda_events_created))) = Inr [[(''name'', PStr ''fda_events''), (''source_type'', PStr ''web''), (''version'', PInt 1),
       (''webpage'', PStr ''https://open.fda.gov''),
       (''link'', PStr ''https://api.fda.gov/drug/event.json''), (''link_type'', PStr ''json''),
       (''frequency'', PInt 7), (''lifecycle'', PInt 1), (''creator'', PInt 1),
       (''has_changed'', PBool True), (''source_updated'', PTime 1), (''created'', PTime 0),
       (''created_by'', PStr ''etl''), (''title'', PNone), (''description'', PNone),
       (''coverage'', PNone), (''maintainer'', PNone),
       (''uris'', PList [PStr ''https://api.fda.gov/drug/event.json'']),
       (''updated'', PTime 1), (''updated_by'', PStr ''etl'')]]"
    using t[THEN conjunct2, THEN conjunct2, THEN conjunct1]
    by (simp add: fda_events_created_tables)
  show ?thesis
    by (intro conjI given mem named ok before after)
qed

section \<open>\<^verbatim>\<open>DataSource.read\<close> and \<^verbatim>\<open>DataSource.delete\<close>\<close>

text \<open>
  Claim C6. \<^verbatim>\<open>DataSource.read\<close> with a name delegates one read filtered by the single
  equality predicate \<^verbatim>\<open>name = \<close> the given name and returns the matching rows, an empty
  result and not an error when no row matches; without a name it delegates one unfiltered
  read and returns all rows of the table.
\<close>

theorem DataSource_read_delegates:
  "(name \<noteq> PNone \<longrightarrow>
      DataSource_read (traced (spec_dao dflt)) self name (s, []) =
        (Inr (filter (\<lambda>r. map_of r ''name'' = Some name)
                (tables s (Artifact.self_schema self, DataSource.self_table self))),
         (s, [Read (DataSource.self_table self) (Some ''name'') (Some name)
                (Some (Artifact.self_schema self))])))
   \<and> (name \<noteq> PNone \<and>
      (\<forall>r \<in> set (tables s (Artifact.self_schema self, DataSource.self_table self)).
          map_of r ''name'' \<noteq> Some name) \<longrightarrow>
      fst (DataSource_read (traced (spec_dao dflt)) self name (s, [])) = Inr [])
   \<and> (name = PNone \<longrightarrow>
      DataSource_read (traced (spec_dao dflt)) self name (s, []) =
        (Inr (tables s (Artifact.self_schema self, DataSource.self_table self)),
         (s, [Read (DataSource.self_table self) None None
                (Some (Artifact.self_schema self))])))"
  by (auto simp: DataSource_read_def traced_def target_def matches_def filter_empty_conv
        cong: filter_cong)

theorem DataSource_read_delegates_witness:
  "PStr ''nowhere'' \<noteq> PNone
   \<and> list_all (\<lambda>r. map_of r ''name'' \<noteq> Some (PStr ''nowhere''))
         (tables fda_events_created (''public'', ''datasource''))
   \<and> fst (DataSource_read (traced (spec_dao ''public'')) (DataSource_init aact_credentials False)
            (PStr ''nowhere'') (fda_events_created, [])) = Inr []
   \<and> snd (DataSource_read (traced (spec_dao ''public'')) (DataSource_init aact_credentials False)
            (PStr ''nowhere'') (fda_events_created, [])) =
       (fda_events_created,
        [Read ''datasource'' (Some ''name'') (Some (PStr ''nowhere'')) (Some ''public'')])"
proof -
  have given: "PStr ''nowhere'' \<noteq> PNone"
    by simp
  have absent: "\<forall>r \<in> set (tables fda_events_created (''public'', ''datasource'')).
                  map_of r ''name'' \<noteq> Some (PStr ''nowhere'')"
    by (simp add: fda_events_created_tables)
  from DataSource_read_delegates[of "PStr ''nowhere''" "''public''"
      "DataSource_init aact_credentials False" fda_events_created] given absent
  show ?thesis
    by (simp add: list_all_iff)
qed

text \<open>
  Claim C7. For every name, \<^verbatim>\<open>DataSource.delete(name)\<close> completes without error and removes
  exactly the rows whose name column equals the argument; when no row matches, no row is
  affected and the storage is as before.
\<close>

theorem DataSource_delete_removes_matching_rows:
  "DataSource_delete (traced (spec_dao dflt)) self name (s, []) =
     (Inr (),
      (s\<lparr>tables := (tables s)
           ((Artifact.self_schema self, DataSource.self_table self) :=
              filter (\<lambda>r. map_of r ''name'' \<noteq> Some name)
                (tables s (Artifact.self_schema self, DataSource.self_table self)))\<rparr>,
       [Delete (DataSource.self_table self) ''name'' name (Some (Artifact.self_schema self))]))
   \<and> ((\<forall>r \<in> set (tables s (Artifact.self_schema self, DataSource.self_table self)).
          map_of r ''name'' \<noteq> Some name) \<longrightarrow>
      fst (snd (DataSource_delete (traced (spec_dao dflt)) self name (s, []))) = s)"
proof -
  let ?t = "(Artifact.self_schema self, DataSource.self_table self)"
  have run: "DataSource_delete (traced (spec_dao dflt)) self name (s, []) =
     (Inr (),
      (s\<lparr>tables := (tables s)(?t := filter (\<lambda>r. map_of r ''name'' \<noteq> Some name) (tables s ?t))\<rparr>,
       [Delete (DataSource.self_table self) ''name'' name (Some (Artifact.self_schema self))]))"
    by (simp add: DataSource_delete_def andthen_def return_None_def traced_def target_def
          matches_def Let_def)
  have "filter (\<lambda>r. map_of r ''name'' \<noteq> Some name) (tables s ?t) = tables s ?t"
    if "\<forall>r \<in> set (tables s ?t). map_of r ''name'' \<noteq> Some name"
    using that by (simp add: filter_id_conv)
  then show ?thesis
    unfolding run by simp
qed

theorem DataSource_delete_removes_matching_rows_witness:
  "list_all (\<lambda>r. map_of r ''name'' \<noteq> Some (PStr ''nowhere''))
     (tables fda_events_created (''public'', ''datasource''))
   \<and> fst (DataSource_delete (traced (spec_dao ''public''))
            (DataSource_init aact_credentials False) (PStr ''nowhere'')
            (fda_events_created, [])) = Inr ()
   \<and> fst (snd (DataSource_delete (traced (spec_dao ''public''))
                 (DataSource_init aact_credentials False) (PStr ''nowhere'')
                 (fda_events_created, []))) = fda_events_created"
proof -
  have absent: "\<forall>r \<in> set (tables fda_events_created (''public'', ''datasource'')).
                  map_of r ''name'' \<noteq> Some (PStr ''nowhere'')"
    by (simp add: fda_events_created_tables)
  from DataSource_delete_removes_matching_rows[of "''public''"
      "DataSource_init aact_credentials False" "PStr ''nowhere''" fda_events_created] absent
  show ?thesis
    by (simp add: list_all_iff)
qed

section \<open>Schema and table of every storage operation\<close>

lemma traced_log:
  "snd (snd (traced d c (s, lg))) = lg @ [c]"
  by (simp add: traced_def split: prod.splits)

lemma run_calls_traced_subset:
  "set (snd (snd (run_calls (traced d) cs (s, [])))) \<subseteq> set cs"
proof -
  obtain n where "snd (snd (run_calls (traced d) cs (s, []))) = [] @ take n cs"
    using run_calls_traced_log[of cs d s "[]"] by blast
  then show ?thesis
    by (simp add: set_take_subset)
qed

text \<open>
  Claim C5. Every storage operation issued by \<^verbatim>\<open>DataSource\<close> and by \<^verbatim>\<open>DataSourceEvent\<close>
  targets the fixed schema \<^verbatim>\<open>public\<close> and the component's fixed table. The calls of
  \<^verbatim>\<open>DataSourceEvent.read\<close> and \<^verbatim>\<open>DataSourceEvent.delete\<close> name the table and pass no schema
  at all, although the object holds the schema \<^verbatim>\<open>public\<close> and \<^verbatim>\<open>DataSourceEvent.create\<close> and
  \<^verbatim>\<open>DataSource.read\<close> pass it: the schema these two calls address is left to the data-access
  object.
\<close>

theorem DataSourceEvent_read_passes_no_schema:
  "snd (snd (DataSourceEvent_read (traced (spec_dao ''public''))
               (DataSourceEvent_init aact_credentials) (PStr ''fda_events'') (empty_pg, []))) =
     [Read ''datasourceevent'' (Some ''name'') (Some (PStr ''fda_events'')) None]
   \<and> snd (snd (DataSourceEvent_read (traced (spec_dao ''public''))
               (DataSourceEvent_init aact_credentials) PNone (empty_pg, []))) =
     [Read ''datasourceevent'' None None None]
   \<and> snd (snd (DataSourceEvent_delete (traced (spec_dao ''public''))
               (DataSourceEvent_init aact_credentials) (PInt 1) (empty_pg, []))) =
     [Delete ''datasourceevent'' ''id'' (PInt 1) None]
   \<and> snd (snd (DataSourceEvent_create (traced (spec_dao ''public''))
               (DataSourceEvent_init aact_credentials) [(''name'', PStr ''fda_events'')]
               (empty_pg, []))) =
     [Create ''datasourceevent'' [''name''] [PStr ''fda_events''] (Some ''public'')]
   \<and> snd (snd (DataSource_read (traced (spec_dao ''public''))
               (DataSource_init aact_credentials False) (PStr ''fda_events'')
               (empty_pg, []))) =
     [Read ''datasource'' (Some ''name'') (Some (PStr ''fda_events'')) (Some ''public'')]
   \<and> Event.self_schema (DataSourceEvent_init aact_credentials) = ''public''"
  by (simp add: DataSourceEvent_read_def DataSourceEvent_delete_def DataSourceEvent_create_def
        DataSource_read_def traced_log traced_single)

text \<open>
  The other call sites: every storage operation of \<^verbatim>\<open>DataSource\<close> and the insert of
  \<^verbatim>\<open>DataSourceEvent.create\<close> pass the table and the schema \<^verbatim>\<open>public\<close>, on every
  data-access object; \<^verbatim>\<open>DataSourceEvent.read\<close> and \<^verbatim>\<open>DataSourceEvent.delete\<close> pass the
  table.
\<close>

lemma storage_operations_table_and_schema:
  "(\<forall>c \<in> set (snd (snd (DataSource_create (traced d) (DataSource_init credentials autocommit)
                  name source_type version webpage link link_type frequency lifecycle creator
                  has_changed source_updated created created_by title description coverage
                  maintainer kwargs (s, [])))).
      call_table c = Some ''datasource'' \<and> call_schema c = Some ''public'')
   \<and> (\<forall>c \<in> set (snd (snd (DataSource_read (traced d) (DataSource_init credentials autocommit)
                  name (s, [])))).
      call_table c = Some ''datasource'' \<and> call_schema c = Some ''public'')
   \<and> (\<forall>c \<in> set (snd (snd (DataSource_update (traced d) (DataSource_init credentials autocommit)
                  name version uris has_changed source_updated updated updated_by (s, [])))).
      is_storage_op c \<longrightarrow>
      call_table c = Some ''datasource'' \<and> call_schema c = Some ''public'')
   \<and> (\<forall>c \<in> set (snd (snd (DataSource_delete (traced d) (DataSource_init credentials autocommit)
                  name (s, [])))).
      call_table c = Some ''datasource'' \<and> call_schema c = Some ''public'')
   \<and> (\<forall>c \<in> set (snd (snd (DataSourceEvent_create (traced d) (DataSourceEvent_init credentials)
                  kwargs (s, [])))).
      call_table c = Some ''datasourceevent'' \<and> call_schema c = Some ''public'')
   \<and> (\<forall>c \<in> set (snd (snd (DataSourceEvent_read (traced d) (DataSourceEvent_init credentials)
                  name (s, [])))).
      call_table c = Some ''datasourceevent'')
   \<and> (\<forall>c \<in> set (snd (snd (DataSourceEvent_delete (traced d) (DataSourceEvent_init credentials)
                  id' (s, [])))).
      call_table c = Some ''datasourceevent'')"
proof -
  have upd: "\<forall>c \<in> set (snd (snd (DataSource_update (traced d)
                  (DataSource_init credentials autocommit)
                  name version uris has_changed source_updated updated updated_by (s, [])))).
      is_storage_op c \<longrightarrow>
      call_table c = Some ''datasource'' \<and> call_schema c = Some ''public''"
  proof
    fix c
    assume "c \<in> set (snd (snd (DataSource_update (traced d)
                  (DataSource_init credentials autocommit)
                  name version uris has_changed source_updated updated updated_by (s, []))))"
    then have "c \<in> set (update_sequence ''datasource'' ''public'' name uris has_changed
                          source_updated updated updated_by)"
      using run_calls_traced_subset[of d "update_sequence ''datasource'' ''public'' name uris
               has_changed source_updated updated updated_by" s]
      by (auto simp: DataSource_update_run)
    then show "is_storage_op c \<longrightarrow>
      call_table c = Some ''datasource'' \<and> call_schema c = Some ''public''"
      by (auto simp: update_sequence_def)
  qed
  have rest:
    "\<forall>c \<in> set (snd (snd (DataSource_create (traced d) (DataSource_init credentials autocommit)
                  name source_type version webpage link link_type frequency lifecycle creator
                  has_changed source_updated created created_by title description coverage
                  maintainer kwargs (s, [])))).
      call_table c = Some ''datasource'' \<and> call_schema c = Some ''public''"
    "\<forall>c \<in> set (snd (snd (DataSource_read (traced d) (DataSource_init credentials autocommit)
                  name (s, [])))).
      call_table c = Some ''datasource'' \<and> call_schema c = Some ''public''"
    "\<forall>c \<in> set (snd (snd (DataSource_delete (traced d) (DataSource_init credentials autocommit)
                  name (s, [])))).
      call_table c = Some ''datasource'' \<and> call_schema c = Some ''public''"
    "\<forall>c \<in> set (snd (snd (DataSourceEvent_create (traced d) (DataSourceEvent_init credentials)
                  kwargs (s, [])))).
      call_table c = Some ''datasourceevent'' \<and> call_schema c = Some ''public''"
    "\<forall>c \<in> set (snd (snd (DataSourceEvent_read (traced d) (DataSourceEvent_init credentials)
                  name (s, [])))).
      call_table c = Some ''datasourceevent''"
    "\<forall>c \<in> set (snd (snd (DataSourceEvent_delete (traced d) (DataSourceEvent_init credentials)
                  id' (s, [])))).
      call_table c = Some ''datasourceevent''"
    by (simp_all add: DataSource_create_def DataSource_read_def DataSource_delete_def
          DataSourceEvent_create_def DataSourceEvent_read_def DataSourceEvent_delete_def
          traced_single traced_log split: prod.splits)
  from upd rest show ?thesis
    by blast
qed

section \<open>\<^verbatim>\<open>DataSourceEvent.create\<close>\<close>



end
